theory Spec2Isabelle
  imports Complex_Main "HOL-Library.Multiset" "HOL-Library.Log_Nat"
    "HOL-Library.Char_ord" "HOL-Library.List_Lexorder"
begin

section \<open>Python values used by report_chart.py\<close>

text \<open>
  Exceptions are values. Each constructor is a Python exception class and carries the
  message; \<open>KeyError\<close> carries the missing column name, \<open>BackendError\<close> stands
  for any exception raised inside the plotting library. The module defines no exception
  class of its own.
\<close>

datatype exn =
    TypeError string
  | ValueError string
  | OverflowError string
  | IndexError string
  | KeyError string
  | ZeroDivisionError string
  | BackendError string

text \<open>\<open>str(e)\<close>, as used by the f-strings of the two handlers.\<close>

fun exn_str :: "exn \<Rightarrow> string" where
  "exn_str (TypeError m) = m"
| "exn_str (ValueError m) = m"
| "exn_str (OverflowError m) = m"
| "exn_str (IndexError m) = m"
| "exn_str (KeyError k) = [CHR 0x27] @ k @ [CHR 0x27]"
| "exn_str (ZeroDivisionError m) = m"
| "exn_str (BackendError m) = m"

text \<open>\<open>type(e).__name__\<close>: the class of the exception.\<close>

fun exn_class :: "exn \<Rightarrow> string" where
  "exn_class (TypeError m) = ''TypeError''"
| "exn_class (ValueError m) = ''ValueError''"
| "exn_class (OverflowError m) = ''OverflowError''"
| "exn_class (IndexError m) = ''IndexError''"
| "exn_class (KeyError k) = ''KeyError''"
| "exn_class (ZeroDivisionError m) = ''ZeroDivisionError''"
| "exn_class (BackendError m) = ''BackendError''"

text \<open>
  A cell of the failureRate column: a number (a Python int or a float, as its exact
  value) or a string.
\<close>

datatype cell = Num rat | Str string

text \<open>
  A row of the report table: the three columns the renderer reads. The failureRate cell
  may hold a number or a string; tokens is a number and module a text, as the renderer
  expects them.
\<close>

record row =
  module :: string
  failureRate :: cell
  tokens :: rat

text \<open>
  A data frame: the names of the columns that are present, and the rows. A column that
  is not listed in \<open>columns\<close> is absent, whatever the row records hold for it.
\<close>

record frame =
  columns :: "string list"
  rows :: "row list"

text \<open>
  Modelled from the spec: the declaration of \<open>Table\<close> (module \<open>primitives\<close>) is not
  part of the sources; the spec's input is a tabular structure with named columns.
  \<open>Tabular f\<close> is an object that passes the \<open>isinstance\<close> test of the function it
  is given to (\<open>Table\<close> for \<open>plot_security_report\<close>, \<open>pd.DataFrame\<close> for
  \<open>generate_identifiers\<close>) and holds the columns and rows \<open>f\<close>;
  \<open>NonTabular\<close> is any other object.
\<close>

datatype pyobj = Tabular frame | NonTabular

text \<open>
  Modelled from the spec: \<open>pd.DataFrame(table)\<close> (line 25) on such a table gives the
  frame with the same columns and rows.
\<close>

definition pd_DataFrame :: "frame \<Rightarrow> frame" where
  "pd_DataFrame t = t"

text \<open>The process state the module touches: the logging output and pyplot's open figures.\<close>

datatype level = INFO | ERROR

record world =
  log :: "(level \<times> string) list"
  figures :: "nat list"

definition logging_info :: "string \<Rightarrow> world \<Rightarrow> world" where
  "logging_info msg w = w\<lparr>log := log w @ [(INFO, msg)]\<rparr>"

definition logging_error :: "string \<Rightarrow> world \<Rightarrow> world" where
  "logging_error msg w = w\<lparr>log := log w @ [(ERROR, msg)]\<rparr>"

section \<open>Formatting integers\<close>

definition digit_char :: "nat \<Rightarrow> char" where
  "digit_char d = char_of (48 + d)"

definition digit_val :: "char \<Rightarrow> nat" where
  "digit_val c = of_char c - 48"

text \<open>\<open>str(n)\<close> for a non-negative Python int.\<close>

function str_nat :: "nat \<Rightarrow> string" where
  "str_nat n = (if n < 10 then [digit_char n] else str_nat (n div 10) @ [digit_char (n mod 10)])"
  by pat_completeness auto
termination
  by (relation "measure id") auto

declare str_nat.simps [simp del]

text \<open>Reading a decimal numeral back; only used to show that \<open>str_nat\<close> is injective.\<close>

definition nat_of_str :: "string \<Rightarrow> nat" where
  "nat_of_str s = foldl (\<lambda>a c. 10 * a + digit_val c) 0 s"

section \<open>generate_identifiers\<close>

definition alphabet :: string where
  "alphabet = ''ABCDEFGHIJKLMNOPQRSTUVWXYZ''"

definition num_letters :: nat where
  "num_letters = length alphabet"

definition max_identifiers :: nat where
  "max_identifiers = num_letters * num_letters"

text \<open>
  The loop \<open>for i in range(data_length)\<close>, with the list \<open>identifiers\<close> as accumulator.
  The guard on \<open>letter_index\<close> is the source's, kept as a branch of the model.
\<close>

fun identifiers_loop :: "nat list \<Rightarrow> string list \<Rightarrow> exn + string list" where
  "identifiers_loop [] identifiers = Inr identifiers"
| "identifiers_loop (i # rest) identifiers =
     (let letter_index = i div num_letters in
      if letter_index \<ge> num_letters
      then Inl (IndexError ''Identifier generation exceeded the supported range.'')
      else
        let number = (i mod num_letters) + 1;
            identifier = (alphabet ! letter_index) # str_nat number
        in identifiers_loop rest (identifiers @ [identifier]))"

text \<open>The body of the \<open>try\<close> block.\<close>

definition generate_identifiers_body :: "pyobj \<Rightarrow> exn + string list" where
  "generate_identifiers_body data =
     (case data of
        NonTabular \<Rightarrow> Inl (TypeError ''Input argument must be a pandas DataFrame.'')
      | Tabular f \<Rightarrow>
          let data_length = length (rows f) in
          if data_length = 0 then Inl (ValueError ''DataFrame cannot be empty.'')
          else if data_length > max_identifiers
          then Inl (OverflowError (''Cannot generate more than '' @ str_nat max_identifiers
                                   @ '' unique identifiers.''))
          else identifiers_loop [0..<data_length] [])"

text \<open>
  The handler catches the four exception classes the body can raise, logs, and re-raises
  the same exception.
\<close>

definition generate_identifiers :: "pyobj \<Rightarrow> world \<Rightarrow> (exn + string list) \<times> world" where
  "generate_identifiers data w =
     (case generate_identifiers_body data of
        Inl e \<Rightarrow> (Inl e, logging_error (''Error in generate_identifiers: '' @ exn_str e) w)
      | Inr identifiers \<Rightarrow> (Inr identifiers, w))"

section \<open>Python and numpy operations the renderer uses\<close>

text \<open>\<open>str(i)\<close> for a Python int.\<close>

definition str_int :: "int \<Rightarrow> string" where
  "str_int i = (if i < 0 then CHR ''-'' # str_nat (nat (- i)) else str_nat (nat i))"

text \<open>\<open>int(x)\<close>: truncation towards zero.\<close>

definition py_int :: "rat \<Rightarrow> int" where
  "py_int x = (if 0 \<le> x then \<lfloor>x\<rfloor> else \<lceil>x\<rceil>)"

text \<open>\<open>range(0, stop, step)\<close> for a positive step.\<close>

definition py_range0 :: "int \<Rightarrow> int \<Rightarrow> int list" where
  "py_range0 stop step = map (\<lambda>k. int k * step) [0..<nat ((stop + step - 1) div step)]"

text \<open>\<open>np.arange(0, stop, step)\<close> for a positive step: \<open>ceil(stop / step)\<close> values.\<close>

definition np_arange0 :: "rat \<Rightarrow> rat \<Rightarrow> rat list" where
  "np_arange0 stop step = map (\<lambda>k. of_nat k * step) [0..<nat \<lceil>stop / step\<rceil>]"

text \<open>The format specification \<open>.1f\<close>: one decimal, ties to even.\<close>

definition round_half_even :: "rat \<Rightarrow> int" where
  "round_half_even x =
     (let f = \<lfloor>x\<rfloor>; d = x - of_int f
      in if d < 1 / 2 then f else if 1 / 2 < d then f + 1 else if even f then f else f + 1)"

definition format_1f :: "rat \<Rightarrow> string" where
  "format_1f x =
     (let t = nat (round_half_even (10 * \<bar>x\<bar>))
      in (if x < 0 then ''-'' else []) @ str_nat (t div 10) @ ''.'' @ str_nat (t mod 10))"

subsection \<open>Double precision\<close>

text \<open>
  A float is its exact value, a rational. \<open>round_to_double\<close> is the rounding of IEEE
  754 binary64 arithmetic: to the nearest number with a 53 bit significand, ties to
  even (overflow and subnormal numbers are left out). A float operation is the exact
  operation followed by this rounding.
\<close>

definition pow2 :: "int \<Rightarrow> rat" where
  "pow2 e = (if 0 \<le> e then 2 ^ nat e else 1 / 2 ^ nat (- e))"

text \<open>The exponent \<open>e\<close> with \<open>2 ^ e \<le> |x| < 2 ^ (e + 1)\<close>, for \<open>x\<close> other than 0.\<close>

definition binary_exponent :: "rat \<Rightarrow> int" where
  "binary_exponent x =
     (let (p, q) = quotient_of \<bar>x\<bar>; e0 = bitlen p - bitlen q
      in if pow2 e0 \<le> \<bar>x\<bar> then e0 else e0 - 1)"

definition round_to_double :: "rat \<Rightarrow> rat" where
  "round_to_double x =
     (if x = 0 then 0
      else
        let ulp = pow2 (binary_exponent x - 52)
        in sgn x * of_int (round_half_even (\<bar>x\<bar> / ulp)) * ulp)"

text \<open>\<open>a * b\<close> on floats; an int operand is converted first.\<close>

definition float_mul :: "rat \<Rightarrow> rat \<Rightarrow> rat" where
  "float_mul a b = round_to_double (round_to_double a * round_to_double b)"

subsection \<open>matplotlib\<close>

text \<open>
  A division whose zero divisor is made visible as an error value.
\<close>

definition checked_div :: "rat \<Rightarrow> rat \<Rightarrow> exn + rat" where
  "checked_div a b = (if b = 0 then Inl (ZeroDivisionError ''division by zero'') else Inr (a / b))"

text \<open>
  \<open>matplotlib.colors.Normalize(vmin, vmax).__call__\<close> (library code): a constant 0
  when the two bounds coincide, an error when they are out of order, and the linear
  rescaling otherwise.
\<close>

definition Normalize_call :: "rat \<Rightarrow> rat \<Rightarrow> rat \<Rightarrow> exn + rat" where
  "Normalize_call vmin vmax v =
     (if vmin = vmax then Inr 0
      else if vmax < vmin then Inl (ValueError ''minvalue must be less than or equal to maxvalue'')
      else checked_div (v - vmin) (vmax - vmin))"

text \<open>A list comprehension whose element expression may raise: the first error wins.\<close>

fun comprehension :: "('a \<Rightarrow> exn + 'b) \<Rightarrow> 'a list \<Rightarrow> exn + 'b list" where
  "comprehension g [] = Inr []"
| "comprehension g (x # xs) =
     (case g x of
        Inl e \<Rightarrow> Inl e
      | Inr y \<Rightarrow> (case comprehension g xs of Inl e \<Rightarrow> Inl e | Inr ys \<Rightarrow> Inr (y # ys)))"

type_synonym rgba = "rat \<times> rat \<times> rat \<times> rat"

text \<open>
  The values of lines 38 to 62 that come from the data: the bar heights and colours
  given to \<open>ax.bar\<close> and the tick labels of the angular axis. The angles of line 43
  and the text rotation of line 116 are float computations with \<open>pi\<close>; the model
  leaves them out.
\<close>

record chart =
  bar_heights :: "cell list"
  bar_colors :: "rgba list"
  xticklabels :: "string list"

text \<open>The radial axis, lines 58 to 69: the limits, the ticks and their labels.\<close>

record axis =
  ylim :: "rat \<times> rat"
  yticks :: "rat list"
  yticklabels :: "string list"

text \<open>The in-memory buffer that is returned: its bytes and the stream position.\<close>

record buffer =
  content :: string
  pos :: nat

text \<open>
  What the libraries decide and the repository does not, as parameters:
  \<^item> \<open>tie_rank\<close>: numpy's \<open>argsort\<close> with the default \<open>kind\<close> sorts by the key;
    the order it leaves among equal keys is the algorithm's. \<open>tie_rank col i\<close> is the
    rank of position \<open>i\<close> of the key array \<open>col\<close> among the positions with an equal key;
  \<^item> \<open>from_list\<close>: \<open>LinearSegmentedColormap.from_list("custom", colors, N)\<close>, the
    colormap as a function of the normalised value;
  \<^item> \<open>draw_chart\<close>: the drawing calls of lines 46 to 57 (\<open>None\<close> when none raises);
  \<^item> \<open>draw_axes\<close>: the calls of lines 58 to 66;
  \<^item> \<open>draw_labels\<close>: the calls of lines 67 to 121, once the tick labels are accepted;
  \<^item> \<open>savefig\<close>: the table, layout and encoding calls of lines 130 to 147, giving
    the PNG bytes.
\<close>

record library =
  tie_rank :: "cell list \<Rightarrow> nat \<Rightarrow> nat"
  from_list :: "string list \<Rightarrow> nat \<Rightarrow> rat \<Rightarrow> rgba"
  draw_chart :: "chart \<Rightarrow> exn option"
  draw_axes :: "axis \<Rightarrow> exn option"
  draw_labels :: "axis \<Rightarrow> string list \<Rightarrow> exn option"
  savefig :: "chart \<Rightarrow> string list list \<Rightarrow> exn + string"

text \<open>pyplot's registry of open figures: a new figure gets the next free number.\<close>

definition plt_subplots :: "world \<Rightarrow> nat \<times> world" where
  "plt_subplots w =
     (let fig = Suc (fold max (figures w) 0) in (fig, w\<lparr>figures := figures w @ [fig]\<rparr>))"

definition plt_close :: "nat \<Rightarrow> world \<Rightarrow> world" where
  "plt_close fig w = w\<lparr>figures := removeAll fig (figures w)\<rparr>"

subsection \<open>pandas\<close>

text \<open>The numbers of a column whose cells are all numbers; likewise for strings.\<close>

fun numbers :: "cell list \<Rightarrow> rat list option" where
  "numbers [] = Some []"
| "numbers (Num v # cs) = map_option ((#) v) (numbers cs)"
| "numbers (Str s # cs) = None"

fun strings :: "cell list \<Rightarrow> string list option" where
  "strings [] = Some []"
| "strings (Str s # cs) = map_option ((#) s) (strings cs)"
| "strings (Num v # cs) = None"

text \<open>
  \<open>data[name]\<close>: \<open>KeyError\<close> for a column that is not there. A row of the model holds
  the three columns the renderer reads; any other column reads as empty text.
\<close>

definition column :: "string \<Rightarrow> frame \<Rightarrow> exn + cell list" where
  "column name f =
     (if name \<notin> set (columns f) then Inl (KeyError name)
      else Inr (map (\<lambda>r. if name = ''module'' then Str (module r)
                          else if name = ''failureRate'' then failureRate r
                          else if name = ''tokens'' then Num (tokens r)
                          else Str []) (rows f)))"

text \<open>
  \<open>keys.argsort()\<close>: the positions of the key array in ascending order of the key;
  positions with equal keys come in the order of their \<open>tie_rank\<close>, and by position
  where that is equal too.
\<close>

definition argsort :: "library \<Rightarrow> cell list \<Rightarrow> ('k :: linorder) list \<Rightarrow> nat list" where
  "argsort L col keys =
     map fst (sort_key snd (sort_key (\<lambda>(i, k). tie_rank L col i) (enumerate 0 keys)))"

text \<open>
  pandas' \<open>nargsort\<close>: for a descending sort the key array is reversed, sorted
  ascending, and the result is reversed again.
\<close>

definition nargsort :: "library \<Rightarrow> cell list \<Rightarrow> ('k :: linorder) list \<Rightarrow> bool \<Rightarrow> nat list" where
  "nargsort L col keys ascending =
     (if ascending then argsort L col keys
      else rev (map (\<lambda>j. length keys - 1 - j) (argsort L (rev col) (rev keys))))"

text \<open>
  The message of the \<open>TypeError\<close> that comparing a string with a number raises. It
  names the two classes in the order they were compared; the model fixes one order.
\<close>

definition unorderable :: string where
  "unorderable =
     [CHR 0x27] @ ''<'' @ [CHR 0x27] @ '' not supported between instances of ''
       @ [CHR 0x27] @ ''str'' @ [CHR 0x27] @ '' and '' @ [CHR 0x27] @ ''float'' @ [CHR 0x27]"

text \<open>
  \<open>data.sort_values(key, ascending=...).reset_index(drop=True)\<close>. Numbers are ordered
  by value and strings by code points; a column that mixes them cannot be ordered.
\<close>

definition sort_values :: "library \<Rightarrow> string \<Rightarrow> bool \<Rightarrow> frame \<Rightarrow> exn + frame" where
  "sort_values L key ascending f =
     (case column key f of
        Inl e \<Rightarrow> Inl e
      | Inr col \<Rightarrow>
          (case numbers col of
             Some ks \<Rightarrow> Inr (f\<lparr>rows := map (\<lambda>j. rows f ! j) (nargsort L col ks ascending)\<rparr>)
           | None \<Rightarrow>
               (case strings col of
                  Some ks \<Rightarrow> Inr (f\<lparr>rows := map (\<lambda>j. rows f ! j) (nargsort L col ks ascending)\<rparr>)
                | None \<Rightarrow>
                    Inl (TypeError unorderable))))"

section \<open>plot_security_report\<close>

text \<open>
  Lines 21 to 29: the type test, the sort by failureRate, descending, and the identifier
  column. The result is the sorted frame and the list stored as its column
  \<open>identifier\<close>.
\<close>

definition preprocess :: "library \<Rightarrow> pyobj \<Rightarrow> world \<Rightarrow> (exn + frame \<times> string list) \<times> world" where
  "preprocess L table w =
     (case table of
        NonTabular \<Rightarrow> (Inl (TypeError ''Input argument must be a pandas DataFrame.''), w)
      | Tabular t \<Rightarrow>
          let w1 = logging_info ''Data preprocessing started.'' w;
              data = pd_DataFrame t
          in (case sort_values L ''failureRate'' False data of
                Inl e \<Rightarrow> (Inl e, w1)
              | Inr data \<Rightarrow>
                  (case generate_identifiers (Tabular data) w1 of
                     (Inl e, w2) \<Rightarrow> (Inl e, w2)
                   | (Inr identifier, w2) \<Rightarrow>
                       (Inr (data\<lparr>columns := (if ''identifier'' \<in> set (columns data)
                                              then columns data
                                              else columns data @ [''identifier''])\<rparr>,
                             identifier), w2))))"

definition palette :: "string list" where
  "palette = [''#6C5B7B'', ''#C06C84'', ''#F67280'', ''#F8B195'']"

text \<open>
  Lines 38 to 53 and 62: the colormap, the normalisation of tokens and the colour of each
  bar. \<open>data["tokens"]\<close> at line 40 is the first read of that column.
\<close>

definition build_chart :: "library \<Rightarrow> frame \<Rightarrow> string list \<Rightarrow> exn + chart" where
  "build_chart L data identifier =
     (if ''tokens'' \<notin> set (columns data) then Inl (KeyError ''tokens'')
      else
        let colors = rev palette;
            cmap = from_list L colors 256
        in (case rows data of
              [] \<Rightarrow>
                Inr \<lparr>bar_heights = [], bar_colors = [], xticklabels = identifier\<rparr>
            | r # rs \<Rightarrow>
                let vmin = fold min (map tokens rs) (tokens r);
                    vmax = fold max (map tokens rs) (tokens r)
                in (case comprehension (Normalize_call vmin vmax) (map tokens (r # rs)) of
                      Inl e \<Rightarrow> Inl e
                    | Inr normed \<Rightarrow>
                        Inr \<lparr>bar_heights = map failureRate (r # rs),
                             bar_colors = map cmap normed,
                             xticklabels = identifier\<rparr>)))"

text \<open>Lines 66 to 69: the radial ticks and their labels, from \<open>max(data["failureRate"])\<close>.\<close>

definition set_yticks :: "rat \<Rightarrow> rat list" where
  "set_yticks fr_max = np_arange0 fr_max 20"

definition set_yticklabels :: "rat \<Rightarrow> string list" where
  "set_yticklabels fr_max = map (\<lambda>x. str_int x @ ''%'') (py_range0 (py_int fr_max) 20)"

text \<open>The message of the \<open>TypeError\<close> that \<open>"text" * 1.1\<close> raises.\<close>

definition cannot_multiply :: string where
  "cannot_multiply =
     ''can'' @ [CHR 0x27] @ ''t multiply sequence by non-int of type ''
       @ [CHR 0x27] @ ''float'' @ [CHR 0x27]"

text \<open>
  Lines 58 to 69, the values of the radial axis. \<open>max(data["failureRate"]) * 1.1\<close> at
  line 58 is the first arithmetic on the column: the builtin \<open>max\<close> raises on an empty
  sequence, and the product of a string and the float \<open>1.1\<close> is a \<open>TypeError\<close>. The
  result also holds the numbers of the column, for the texts of lines 113 and 125.
\<close>

definition radial_axis :: "cell list \<Rightarrow> exn + rat list \<times> axis" where
  "radial_axis col =
     (case numbers col of
        Some [] \<Rightarrow> Inl (ValueError ''max() arg is an empty sequence'')
      | Some (fr # frs) \<Rightarrow>
          let fr_max = fold max frs fr
          in Inr (fr # frs, \<lparr>ylim = (0, float_mul fr_max (11 / 10)),
                              yticks = set_yticks fr_max,
                              yticklabels = set_yticklabels fr_max\<rparr>)
      | None \<Rightarrow>
          (case strings col of
             Some ss \<Rightarrow> Inl (TypeError cannot_multiply)
           | None \<Rightarrow> Inl (TypeError unorderable)))"

text \<open>
  \<open>ax.set_yticklabels\<close> (line 67, library code) refuses a list of labels whose length
  is not the number of ticks set at line 66.
\<close>

definition set_yticklabels_check :: "axis \<Rightarrow> exn option" where
  "set_yticklabels_check a =
     (if length (yticklabels a) = length (yticks a) then None
      else Some (ValueError
             (''The number of FixedLocator locations ('' @ str_nat (length (yticks a))
              @ ''), usually from a call to set_ticks, does not match the number of labels (''
              @ str_nat (length (yticklabels a)) @ '').'')))"

text \<open>Line 113: the text at the tip of each bar.\<close>

definition annotations :: "string list \<Rightarrow> rat list \<Rightarrow> string list" where
  "annotations identifier frs =
     map (\<lambda>(radius, identifier). identifier @ '': '' @ format_1f radius @ ''%'')
       (zip frs identifier)"

text \<open>
  Lines 124 to 129: the cell texts of the side table. The three columns are read before
  the first text is formatted.
\<close>

definition table_data :: "frame \<Rightarrow> string list \<Rightarrow> rat list \<Rightarrow> exn + string list list" where
  "table_data data identifier frs =
     (if ''module'' \<notin> set (columns data) then Inl (KeyError ''module'')
      else Inr ([''Threat''] #
             map (\<lambda>(identifier, fr, module).
                    [identifier @ '': '' @ module @ '' ('' @ format_1f fr @ ''%)''])
               (zip identifier (zip frs (map module (rows data))))))"

text \<open>
  Lines 38 to 147 in their order: every computation and every group of library calls is a
  step, and the first step that raises ends the rendering.
\<close>

definition render :: "library \<Rightarrow> frame \<Rightarrow> string list \<Rightarrow> exn + string" where
  "render L data identifier =
     (case build_chart L data identifier of
        Inl e \<Rightarrow> Inl e
      | Inr c \<Rightarrow>
          (case draw_chart L c of
             Some e \<Rightarrow> Inl e
           | None \<Rightarrow>
               (case radial_axis (bar_heights c) of
                  Inl e \<Rightarrow> Inl e
                | Inr (frs, a) \<Rightarrow>
                    (case draw_axes L a of
                       Some e \<Rightarrow> Inl e
                     | None \<Rightarrow>
                         (case set_yticklabels_check a of
                            Some e \<Rightarrow> Inl e
                          | None \<Rightarrow>
                              (case draw_labels L a (annotations identifier frs) of
                                 Some e \<Rightarrow> Inl e
                               | None \<Rightarrow>
                                   (case table_data data identifier frs of
                                      Inl e \<Rightarrow> Inl e
                                    | Inr cells \<Rightarrow> savefig L c cells)))))))"

text \<open>
  The body of the \<open>try\<close> block. The figure is made at line 32 and closed at line 148,
  after \<open>savefig\<close>.
\<close>

definition plot_body :: "library \<Rightarrow> pyobj \<Rightarrow> world \<Rightarrow> (exn + buffer) \<times> world" where
  "plot_body L table w =
     (case preprocess L table w of
        (Inl e, w1) \<Rightarrow> (Inl e, w1)
      | (Inr (data, identifier), w1) \<Rightarrow>
          (case plt_subplots w1 of
             (fig, w2) \<Rightarrow>
               let w3 = logging_info ''Plot setup complete.'' w2 in
               (case render L data identifier of
                  Inl e \<Rightarrow> (Inl e, w3)
                | Inr png \<Rightarrow>
                    (Inr \<lparr>content = png, pos = 0\<rparr>,
                     logging_info ''Report successfully generated and saved to buffer.''
                       (plt_close fig w3)))))"

text \<open>The handler: log the error, re-raise the same exception.\<close>

definition plot_security_report :: "library \<Rightarrow> pyobj \<Rightarrow> world \<Rightarrow> (exn + buffer) \<times> world" where
  "plot_security_report L table w =
     (case plot_body L table w of
        (Inl e, w') \<Rightarrow>
          (Inl e, logging_error (''Error in generating the security report: '' @ exn_str e) w')
      | (Inr buf, w') \<Rightarrow> (Inr buf, w'))"

section \<open>A sample instance of the library parameters\<close>

definition sample_library :: library where
  "sample_library =
     \<lparr>tie_rank = (\<lambda>col i. i),
      from_list = (\<lambda>colors n x. (x, x, x, 1)),
      draw_chart = (\<lambda>c. None),
      draw_axes = (\<lambda>a. None),
      draw_labels = (\<lambda>a texts. None),
      savefig = (\<lambda>c cells. Inr ''PNG'')\<rparr>"

definition sample_row :: "string \<Rightarrow> rat \<Rightarrow> rat \<Rightarrow> row" where
  "sample_row m fr t = \<lparr>module = m, failureRate = Num fr, tokens = t\<rparr>"

definition empty_world :: world where
  "empty_world = \<lparr>log = [], figures = []\<rparr>"


definition table_no_tokens :: frame where
  "table_no_tokens = \<lparr>columns = [''module'', ''failureRate''], rows = [sample_row ''m1'' 10 1]\<rparr>"

definition table_text_rate :: frame where
  "table_text_rate =
     \<lparr>columns = [''module'', ''failureRate'', ''tokens''],
      rows = [\<lparr>module = ''m1'', failureRate = Str ''high'', tokens = 1\<rparr>]\<rparr>"

section \<open>Properties of generate_identifiers\<close>

lemma num_letters_eq: "num_letters = 26"
  by (simp add: num_letters_def alphabet_def)

lemma max_identifiers_eq: "max_identifiers = 676"
  by (simp add: max_identifiers_def num_letters_eq)

lemma distinct_alphabet: "distinct alphabet"
  by (simp add: alphabet_def)

lemma digit_val_digit_char: "d < 10 \<Longrightarrow> digit_val (digit_char d) = d"
  by (simp add: digit_val_def digit_char_def)

lemma nat_of_str_snoc: "nat_of_str (s @ [c]) = 10 * nat_of_str s + digit_val c"
  by (simp add: nat_of_str_def)

lemma nat_of_str_str_nat: "nat_of_str (str_nat n) = n"
proof (induction n rule: str_nat.induct)
  case (1 n)
  show ?case
  proof (cases "n < 10")
    case True
    then show ?thesis
      by (subst str_nat.simps) (simp add: nat_of_str_def digit_val_digit_char)
  next
    case False
    with 1 have "nat_of_str (str_nat (n div 10)) = n div 10" by simp
    with False show ?thesis
      by (subst str_nat.simps) (simp add: nat_of_str_snoc digit_val_digit_char)
  qed
qed

lemma str_nat_inj: "str_nat a = str_nat b \<Longrightarrow> a = b"
  by (metis nat_of_str_str_nat)

lemma identifiers_loop_ok:
  "\<forall>i \<in> set is. i div num_letters < num_letters \<Longrightarrow>
   identifiers_loop is acc =
     Inr (acc @ map (\<lambda>i. (alphabet ! (i div num_letters)) # str_nat (i mod num_letters + 1)) is)"
  by (induction "is" arbitrary: acc) (simp_all add: Let_def)

lemma letter_index_in_range: "n \<le> 676 \<Longrightarrow> i < n \<Longrightarrow> i div 26 < (26::nat)"
  by simp

lemma identifiers_loop_never_IndexError:
  assumes "n \<le> 676"
  shows "identifiers_loop [0..<n] [] =
     Inr (map (\<lambda>i. (alphabet ! (i div 26)) # str_nat (i mod 26 + 1)) [0..<n])"
proof -
  have "\<forall>i \<in> set [0..<n]. i div num_letters < num_letters"
    using assms by (auto simp: num_letters_eq intro: letter_index_in_range)
  from identifiers_loop_ok [OF this, of "[]"] show ?thesis
    by (simp add: num_letters_eq)
qed

lemma body_in_range:
  "1 \<le> length (rows f) \<Longrightarrow> length (rows f) \<le> 676 \<Longrightarrow>
   generate_identifiers_body (Tabular f) =
     Inr (map (\<lambda>i. (alphabet ! (i div 26)) # str_nat (i mod 26 + 1)) [0..<length (rows f)])"
  by (auto simp: generate_identifiers_body_def Let_def max_identifiers_eq
        identifiers_loop_never_IndexError)

lemma identifier_inj:
  assumes "i < 676" "j < 676"
    and "alphabet ! (i div 26) = alphabet ! (j div 26)"
    and "str_nat (Suc (i mod 26)) = str_nat (Suc (j mod 26))"
  shows "i = j"
proof -
  have li: "i div 26 < length alphabet" and lj: "j div 26 < length alphabet"
    using assms(1,2) by (simp_all add: alphabet_def)
  with assms(3) have d: "i div 26 = j div 26"
    using distinct_alphabet by (simp add: nth_eq_iff_index_eq)
  from assms(4) have "Suc (i mod 26) = Suc (j mod 26)" by (rule str_nat_inj)
  then have m: "i mod 26 = j mod 26" by simp
  from d m show ?thesis by (metis div_mult_mod_eq)
qed

lemma identifiers_distinct:
  assumes "n \<le> 676"
  shows "distinct (map (\<lambda>i. (alphabet ! (i div 26)) # str_nat (i mod 26 + 1)) [0..<n])"
proof -
  have "inj_on (\<lambda>i. (alphabet ! (i div 26)) # str_nat (i mod 26 + 1)) (set [0..<n])"
  proof (rule inj_onI)
    fix i j
    assume "i \<in> set [0..<n]" "j \<in> set [0..<n]"
      and eq: "(alphabet ! (i div 26)) # str_nat (i mod 26 + 1) = (alphabet ! (j div 26)) # str_nat (j mod 26 + 1)"
    then have "i < 676" "j < 676" using assms by simp_all
    then show "i = j" using eq by (intro identifier_inj) simp_all
  qed
  then show ?thesis by (simp add: distinct_map)
qed

text \<open>
  Claim C1. For a frame of N rows with 1 \<le> N \<le> 676, \<open>generate_identifiers\<close> returns
  a list of exactly N pairwise distinct identifiers; the identifier at 0-based index i is
  the letter at position i div 26 of the uppercase alphabet followed by the decimal
  numeral of i mod 26 + 1. In particular index 0 gives "A1", index 26 gives "B1" and
  index 675 gives "Z26".
\<close>

theorem generate_identifiers_correct:
  assumes "1 \<le> length (rows f)" and "length (rows f) \<le> 676"
  shows "\<exists>ids. fst (generate_identifiers (Tabular f) w) = Inr ids
           \<and> length ids = length (rows f)
           \<and> distinct ids
           \<and> (\<forall>i < length (rows f). ids ! i = (alphabet ! (i div 26)) # str_nat ((i mod 26) + 1))
           \<and> ids ! 0 = ''A1''
           \<and> (26 < length (rows f) \<longrightarrow> ids ! 26 = ''B1'')
           \<and> (675 < length (rows f) \<longrightarrow> ids ! 675 = ''Z26'')"
proof -
  let ?ids = "map (\<lambda>i. (alphabet ! (i div 26)) # str_nat (i mod 26 + 1)) [0..<length (rows f)]"
  have r: "fst (generate_identifiers (Tabular f) w) = Inr ?ids"
    using assms by (simp add: generate_identifiers_def body_in_range)
  have s1: "str_nat (Suc 0) = ''1''" by code_simp
  have s26: "str_nat 26 = ''26''" by code_simp
  have pos: "0 < length (rows f)" using assms(1) by linarith
  have a0: "?ids ! 0 = ''A1''"
    using pos by (simp add: alphabet_def s1)
  have a26: "26 < length (rows f) \<Longrightarrow> ?ids ! 26 = ''B1''"
    by (simp add: alphabet_def s1)
  have a675: "675 < length (rows f) \<Longrightarrow> ?ids ! 675 = ''Z26''"
    by (simp add: alphabet_def s26)
  have d: "distinct ?ids" by (rule identifiers_distinct [OF assms(2)])
  show ?thesis
    using r a0 a26 a675 d by (intro exI [of _ ?ids]) simp
qed

theorem generate_identifiers_correct_witness:
  "\<exists>ids. fst (generate_identifiers
              (Tabular \<lparr>columns = [''module'', ''failureRate'', ''tokens''],
                        rows = [sample_row ''a'' 10 1, sample_row ''b'' 90 2]\<rparr>) empty_world) = Inr ids
         \<and> length ids = 2 \<and> distinct ids \<and> ids ! 0 = ''A1''"
  using generate_identifiers_correct
    [of "\<lparr>columns = [''module'', ''failureRate'', ''tokens''],
          rows = [sample_row ''a'' 10 1, sample_row ''b'' 90 2]\<rparr>" empty_world]
  by auto

lemma body_NonTabular:
  "generate_identifiers_body NonTabular = Inl (TypeError ''Input argument must be a pandas DataFrame.'')"
  by (simp add: generate_identifiers_body_def)

lemma body_empty:
  "length (rows f) = 0 \<Longrightarrow>
   generate_identifiers_body (Tabular f) = Inl (ValueError ''DataFrame cannot be empty.'')"
  by (simp add: generate_identifiers_body_def)

lemma body_too_long:
  "676 < length (rows f) \<Longrightarrow>
   generate_identifiers_body (Tabular f) =
     Inl (OverflowError (''Cannot generate more than '' @ str_nat max_identifiers @ '' unique identifiers.''))"
  by (auto simp: generate_identifiers_body_def Let_def max_identifiers_eq)

lemma body_cases:
  "generate_identifiers_body data =
     (case data of
        NonTabular \<Rightarrow> Inl (TypeError ''Input argument must be a pandas DataFrame.'')
      | Tabular f \<Rightarrow>
          if length (rows f) = 0 then Inl (ValueError ''DataFrame cannot be empty.'')
          else if 676 < length (rows f)
          then Inl (OverflowError (''Cannot generate more than '' @ str_nat max_identifiers @ '' unique identifiers.''))
          else Inr (map (\<lambda>i. (alphabet ! (i div 26)) # str_nat (i mod 26 + 1)) [0..<length (rows f)]))"
proof (cases data)
  case NonTabular
  then show ?thesis by (simp add: body_NonTabular)
next
  case (Tabular f)
  consider "length (rows f) = 0" | "676 < length (rows f)"
    | "1 \<le> length (rows f)" "length (rows f) \<le> 676" by linarith
  then show ?thesis
  proof cases
    case 1 then show ?thesis using Tabular by (simp add: body_empty)
  next
    case 2
    then have "rows f \<noteq> []" by auto
    with 2 show ?thesis using Tabular by (simp add: body_too_long)
  next
    case 3 then show ?thesis using Tabular body_in_range [OF 3] by auto
  qed
qed

lemma fst_generate_identifiers:
  "fst (generate_identifiers data w) = generate_identifiers_body data"
  by (simp add: generate_identifiers_def split: sum.split)

text \<open>
  Claim C5. \<open>generate_identifiers\<close> raises \<open>TypeError\<close> (the spec's InvalidInput)
  exactly when its argument is not a data frame, \<open>ValueError\<close> (EmptyInput) exactly when
  the frame has no rows, \<open>OverflowError\<close> (CapacityExceeded) exactly when it has more
  than 676 rows, and returns identifiers exactly for a frame of 1 to 676 rows.
\<close>

theorem generate_identifiers_failures:
  "((\<exists>m. fst (generate_identifiers data w) = Inl (TypeError m)) \<longleftrightarrow> data = NonTabular)
   \<and> ((\<exists>m. fst (generate_identifiers data w) = Inl (ValueError m))
        \<longleftrightarrow> (\<exists>f. data = Tabular f \<and> length (rows f) = 0))
   \<and> ((\<exists>m. fst (generate_identifiers data w) = Inl (OverflowError m))
        \<longleftrightarrow> (\<exists>f. data = Tabular f \<and> 676 < length (rows f)))
   \<and> ((\<exists>ids. fst (generate_identifiers data w) = Inr ids)
        \<longleftrightarrow> (\<exists>f. data = Tabular f \<and> 1 \<le> length (rows f) \<and> length (rows f) \<le> 676))"
  unfolding fst_generate_identifiers body_cases
  by (cases data) (auto simp: Suc_le_eq)

text \<open>
  Claim C9, as the code has it. \<open>generate_identifiers\<close> is deterministic: two frames
  of the same length give the same result, whatever their cells and whatever the state of
  the process. A call that returns identifiers leaves the state as it was. A call that
  raises has one effect: the handler (lines 187 to 189) writes one error line to the log.
  No call touches the open figures.
\<close>

theorem generate_identifiers_deterministic:
  "(length (rows f1) = length (rows f2) \<longrightarrow>
      fst (generate_identifiers (Tabular f1) w1) = fst (generate_identifiers (Tabular f2) w2))
   \<and> fst (generate_identifiers data w1) = fst (generate_identifiers data w2)
   \<and> (\<forall>ids. fst (generate_identifiers data w) = Inr ids \<longrightarrow> snd (generate_identifiers data w) = w)
   \<and> (\<forall>e. fst (generate_identifiers data w) = Inl e \<longrightarrow>
         snd (generate_identifiers data w)
           = w\<lparr>log := log w @ [(ERROR, ''Error in generate_identifiers: '' @ exn_str e)]\<rparr>)
   \<and> figures (snd (generate_identifiers data w)) = figures w"
proof -
  have a: "length (rows f1) = length (rows f2) \<Longrightarrow>
      fst (generate_identifiers (Tabular f1) w1) = fst (generate_identifiers (Tabular f2) w2)"
    unfolding fst_generate_identifiers body_cases by simp
  have a': "fst (generate_identifiers data w1) = fst (generate_identifiers data w2)"
    unfolding fst_generate_identifiers ..
  have b: "\<And>ids. fst (generate_identifiers data w) = Inr ids \<Longrightarrow> snd (generate_identifiers data w) = w"
    by (simp add: generate_identifiers_def split: sum.splits)
  have b': "\<And>e. fst (generate_identifiers data w) = Inl e \<Longrightarrow>
         snd (generate_identifiers data w)
           = w\<lparr>log := log w @ [(ERROR, ''Error in generate_identifiers: '' @ exn_str e)]\<rparr>"
    by (simp add: generate_identifiers_def logging_error_def split: sum.splits)
  have c: "figures (snd (generate_identifiers data w)) = figures w"
    by (simp add: generate_identifiers_def logging_error_def split: sum.splits)
  from a a' b b' c show ?thesis by blast
qed

theorem generate_identifiers_deterministic_witness:
  "fst (generate_identifiers (Tabular \<lparr>columns = [''module''], rows = [sample_row ''a'' 10 1]\<rparr>) empty_world)
     = fst (generate_identifiers (Tabular \<lparr>columns = [], rows = [sample_row ''b'' 5 7]\<rparr>)
          (logging_info ''x'' empty_world))
   \<and> snd (generate_identifiers (Tabular \<lparr>columns = [''module''], rows = [sample_row ''a'' 10 1]\<rparr>) empty_world)
     = empty_world
   \<and> snd (generate_identifiers NonTabular empty_world)
     = empty_world\<lparr>log := log empty_world
         @ [(ERROR, ''Error in generate_identifiers: ''
                    @ exn_str (TypeError ''Input argument must be a pandas DataFrame.''))]\<rparr>"
proof -
  let ?f1 = "\<lparr>columns = [''module''], rows = [sample_row ''a'' 10 1]\<rparr>"
  let ?f2 = "\<lparr>columns = [], rows = [sample_row ''b'' 5 7]\<rparr>"
  note t = generate_identifiers_deterministic
    [of ?f1 ?f2 empty_world "logging_info ''x'' empty_world" "Tabular ?f1" empty_world]
  note u = generate_identifiers_deterministic
    [of ?f1 ?f2 empty_world empty_world NonTabular empty_world]
  have len: "length (rows ?f1) = length (rows ?f2)" by simp
  have ok: "\<exists>ids. fst (generate_identifiers (Tabular ?f1) empty_world) = Inr ids"
    by (simp add: fst_generate_identifiers body_cases)
  have bad: "fst (generate_identifiers NonTabular empty_world)
               = Inl (TypeError ''Input argument must be a pandas DataFrame.'')"
    by (simp add: fst_generate_identifiers body_cases)
  from t len ok have 1: "fst (generate_identifiers (Tabular ?f1) empty_world)
     = fst (generate_identifiers (Tabular ?f2) (logging_info ''x'' empty_world))"
    and 2: "snd (generate_identifiers (Tabular ?f1) empty_world) = empty_world"
    by blast+
  from u bad have 3: "snd (generate_identifiers NonTabular empty_world)
     = empty_world\<lparr>log := log empty_world
         @ [(ERROR, ''Error in generate_identifiers: ''
                    @ exn_str (TypeError ''Input argument must be a pandas DataFrame.''))]\<rparr>"
    by blast
  from 1 2 3 show ?thesis by blast
qed

text \<open>
  Claim C9 as stated fails: the function is not free of side effects. A call on an empty
  frame raises \<open>ValueError\<close> and leaves a new line in the log.
\<close>

theorem generate_identifiers_side_effect:
  "generate_identifiers (Tabular \<lparr>columns = [''module'', ''failureRate'', ''tokens''], rows = []\<rparr>)
     empty_world
   = (Inl (ValueError ''DataFrame cannot be empty.''),
      \<lparr>log = [(ERROR, ''Error in generate_identifiers: DataFrame cannot be empty.'')],
       figures = []\<rparr>)"
  by (simp add: generate_identifiers_def body_cases logging_error_def empty_world_def)

text \<open>
  Claim C10. For a frame whose length has passed the emptiness and capacity checks
  (1 \<le> length \<le> 676), every loop index i satisfies i div 26 < 26, so the guard that
  raises \<open>IndexError\<close> is never taken: neither the loop nor the function returns it.
\<close>

theorem IndexError_guard_unreachable:
  assumes "1 \<le> length (rows f)" and "length (rows f) \<le> 676"
  shows "(\<forall>i \<in> set [0..<length (rows f)]. i div num_letters < num_letters)
         \<and> (\<forall>m. fst (generate_identifiers (Tabular f) w) \<noteq> Inl (IndexError m))
         \<and> (\<forall>m acc. identifiers_loop [0..<length (rows f)] acc \<noteq> Inl (IndexError m))"
proof -
  have g: "\<forall>i \<in> set [0..<length (rows f)]. i div num_letters < num_letters"
    using assms(2) by (auto simp: num_letters_eq intro: letter_index_in_range)
  have r: "\<forall>m. fst (generate_identifiers (Tabular f) w) \<noteq> Inl (IndexError m)"
    unfolding fst_generate_identifiers body_cases by simp
  have l: "\<forall>m acc. identifiers_loop [0..<length (rows f)] acc \<noteq> Inl (IndexError m)"
    using identifiers_loop_ok [OF g] by simp
  from g r l show ?thesis by blast
qed

theorem IndexError_guard_unreachable_witness:
  "(\<forall>m. fst (generate_identifiers
              (Tabular \<lparr>columns = [''module''], rows = replicate 30 (sample_row ''a'' 10 1)\<rparr>) empty_world)
          \<noteq> Inl (IndexError m))"
  using IndexError_guard_unreachable
    [of "\<lparr>columns = [''module''], rows = replicate 30 (sample_row ''a'' 10 1)\<rparr>" empty_world]
  by simp

section \<open>Properties of the sort\<close>

lemma mset_argsort: "mset (argsort L col keys) = mset [0..<length keys]"
proof -
  let ?E = "enumerate 0 keys"
  let ?X = "sort_key (\<lambda>(i, k). tie_rank L col i) ?E"
  have "mset (argsort L col keys) = image_mset fst (mset (sort_key snd ?X))"
    unfolding argsort_def by (simp only: mset_map)
  also have "\<dots> = image_mset fst (mset ?E)" by (simp only: mset_sort)
  also have "\<dots> = mset (map fst ?E)" by (simp only: mset_map)
  also have "\<dots> = mset [0..<length keys]" by (simp only: map_fst_enumerate add_0)
  finally show ?thesis .
qed

lemma reflect_upt: "map (\<lambda>j. n - 1 - j) [0..<n] = rev [0..<n]"
  by (rule nth_equalityI) (auto simp: rev_nth)

lemma mset_nargsort: "mset (nargsort L col keys ascending) = mset [0..<length keys]"
proof (cases ascending)
  case True
  then show ?thesis by (simp only: nargsort_def if_True mset_argsort)
next
  case False
  let ?n = "length keys"
  have "mset (nargsort L col keys ascending)
          = image_mset (\<lambda>j. ?n - 1 - j) (mset (argsort L (rev col) (rev keys)))"
    using False unfolding nargsort_def by (simp only: if_False mset_rev mset_map)
  also have "\<dots> = image_mset (\<lambda>j. ?n - 1 - j) (mset [0..<?n])"
    by (simp only: mset_argsort length_rev)
  also have "\<dots> = mset (map (\<lambda>j. ?n - 1 - j) [0..<?n])" by (simp only: mset_map)
  also have "\<dots> = mset [0..<?n]" by (simp only: reflect_upt mset_rev)
  finally show ?thesis .
qed

lemma mset_take_rows:
  assumes "mset js = mset [0..<length xs]"
  shows "mset (map (\<lambda>j. xs ! j) js) = mset xs"
proof -
  have "mset (map (\<lambda>j. xs ! j) js) = image_mset (\<lambda>j. xs ! j) (mset js)"
    by (simp only: mset_map)
  also have "\<dots> = image_mset (\<lambda>j. xs ! j) (mset [0..<length xs])" by (simp only: assms)
  also have "\<dots> = mset (map (\<lambda>j. xs ! j) [0..<length xs])" by (simp only: mset_map)
  also have "\<dots> = mset xs" by (simp only: map_nth)
  finally show ?thesis .
qed

lemma length_numbers: "numbers col = Some ks \<Longrightarrow> length ks = length col"
  by (induction col arbitrary: ks rule: numbers.induct) auto

lemma length_strings: "strings col = Some ks \<Longrightarrow> length ks = length col"
  by (induction col arbitrary: ks rule: strings.induct) auto


lemma strings_eq: "strings col = Some ks \<longleftrightarrow> col = map Str ks"
  by (induction col arbitrary: ks rule: strings.induct) auto

lemma column_failureRate:
  "column ''failureRate'' f =
     (if ''failureRate'' \<in> set (columns f) then Inr (map failureRate (rows f))
      else Inl (KeyError ''failureRate''))"
  by (simp add: column_def)

lemma sort_values_permutes:
  assumes "sort_values L key ascending f = Inr data"
  shows "mset (rows data) = mset (rows f) \<and> columns data = columns f"
proof -
  from assms obtain col where col: "column key f = Inr col"
    unfolding sort_values_def by (cases "column key f") simp_all
  then have lc: "length col = length (rows f)"
    unfolding column_def by (auto split: if_splits)
  have p: "\<And>ks :: ('k :: linorder) list. length ks = length col \<Longrightarrow>
             mset (map (\<lambda>j. rows f ! j) (nargsort L col ks ascending)) = mset (rows f)"
    by (rule mset_take_rows) (simp only: mset_nargsort lc)
  show ?thesis
  proof (cases "numbers col")
    case (Some ks)
    with assms col have "data = f\<lparr>rows := map (\<lambda>j. rows f ! j) (nargsort L col ks ascending)\<rparr>"
      unfolding sort_values_def by simp
    then show ?thesis using p [OF length_numbers [OF Some]] by simp
  next
    case None
    show ?thesis
    proof (cases "strings col")
      case (Some ks)
      with assms col None
      have "data = f\<lparr>rows := map (\<lambda>j. rows f ! j) (nargsort L col ks ascending)\<rparr>"
        unfolding sort_values_def by simp
      then show ?thesis using p [OF length_strings [OF Some]] by simp
    next
      case None': None
      with assms col None show ?thesis unfolding sort_values_def by simp
    qed
  qed
qed

lemma argsort_distinct:
  assumes "distinct keys"
  shows "argsort L col keys = map fst (sort_key snd (enumerate 0 keys))"
proof -
  let ?E = "enumerate 0 keys"
  let ?X = "sort_key (\<lambda>(i, k). tie_rank L col i) ?E"
  have m: "mset ?X = mset (sort_key snd ?E)" by (simp only: mset_sort)
  have "distinct (map snd ?E)" using assms by (simp only: map_snd_enumerate)
  then have "inj_on snd (set ?E)" by (simp only: distinct_map)
  then have i: "inj_on snd (set ?X)" by (simp only: set_sort)
  have "sort_key snd ?X = sort_key snd ?E"
    using m i by (rule sort_key_inj_key_eq) (rule sorted_sort_key)
  then show ?thesis unfolding argsort_def by (rule arg_cong)
qed

lemma sort_three:
  assumes "failureRate r1 = Num 10" and "failureRate r2 = Num 90" and "failureRate r3 = Num 50"
    and "''failureRate'' \<in> set cols"
  shows "sort_values L ''failureRate'' False \<lparr>columns = cols, rows = [r1, r2, r3]\<rparr>
           = Inr \<lparr>columns = cols, rows = [r2, r3, r1]\<rparr>"
proof -
  let ?col = "[Num 10, Num 90, Num 50]"
  have d: "distinct (rev [10, 90, 50 :: rat])" by simp
  have e: "enumerate 0 (rev [10, 90, 50 :: rat]) = [(0, 50), (1, 90), (2, 10)]"
    by (simp add: enumerate_eq_zip upt_rec)
  have "nargsort L ?col [10, 90, 50 :: rat] False = [1, 2, 0]"
    unfolding nargsort_def argsort_distinct [OF d] e by simp
  then show ?thesis
    using assms by (simp add: sort_values_def column_def)
qed

lemma generate_identifiers_three:
  "length (rows f) = 3 \<Longrightarrow> generate_identifiers (Tabular f) w = (Inr [''A1'', ''A2'', ''A3''], w)"
proof -
  assume l: "length (rows f) = 3"
  have u: "[0..<3] = [0, 1, 2]" by (simp add: upt_rec)
  have s1: "str_nat (Suc 0) = ''1''" by code_simp
  have s2: "str_nat (Suc (Suc 0)) = ''2''" by code_simp
  have s3: "str_nat (Suc (Suc (Suc 0))) = ''3''" by code_simp
  have s3': "str_nat 3 = ''3''" by code_simp
  show ?thesis
    using l by (simp add: generate_identifiers_def body_cases u s1 s2 s3 s3' alphabet_def)
qed

lemma preprocess_sorted:
  assumes "sort_values L ''failureRate'' False f = Inr data"
    and "generate_identifiers (Tabular data) (logging_info ''Data preprocessing started.'' w)
           = (Inr ids, logging_info ''Data preprocessing started.'' w)"
  shows "preprocess L (Tabular f) w =
           (Inr (data\<lparr>columns := (if ''identifier'' \<in> set (columns data) then columns data
                                    else columns data @ [''identifier''])\<rparr>, ids),
            logging_info ''Data preprocessing started.'' w)"
  unfolding preprocess_def pd_DataFrame_def Let_def pyobj.case assms sum.case prod.case ..

text \<open>
  Claim C8. For a table of three rows whose failureRate values are 10, 90 and 50, the
  sort of line 28 (by failureRate, descending) orders the rows 90, 50, 10, whatever the
  library does with equal keys, and "A1", "A2" and "A3" go to the rows with failureRate
  90, 50 and 10.
\<close>

theorem sorted_identifier_assignment:
  assumes "failureRate r1 = Num 10" and "failureRate r2 = Num 90" and "failureRate r3 = Num 50"
    and "''failureRate'' \<in> set cols"
  shows "\<exists>data. fst (preprocess L (Tabular \<lparr>columns = cols, rows = [r1, r2, r3]\<rparr>) w)
                  = Inr (data, [''A1'', ''A2'', ''A3''])
           \<and> rows data = [r2, r3, r1]
           \<and> map failureRate (rows data) = [Num 90, Num 50, Num 10]
           \<and> zip [''A1'', ''A2'', ''A3''] (rows data) = [(''A1'', r2), (''A2'', r3), (''A3'', r1)]"
proof -
  let ?w1 = "logging_info ''Data preprocessing started.'' w"
  let ?d = "\<lparr>columns = cols, rows = [r2, r3, r1]\<rparr>"
  have g: "generate_identifiers (Tabular ?d) ?w1 = (Inr [''A1'', ''A2'', ''A3''], ?w1)"
    by (rule generate_identifiers_three) simp
  note p = preprocess_sorted [OF sort_three [OF assms] g]
  let ?data = "?d\<lparr>columns := (if ''identifier'' \<in> set (columns ?d) then columns ?d
                                    else columns ?d @ [''identifier''])\<rparr>"
  have 1: "fst (preprocess L (Tabular \<lparr>columns = cols, rows = [r1, r2, r3]\<rparr>) w)
             = Inr (?data, [''A1'', ''A2'', ''A3''])"
    unfolding p by (rule fst_conv)
  have 2: "rows ?data = [r2, r3, r1]" by simp
  have 3: "map failureRate (rows ?data) = [Num 90, Num 50, Num 10]"
    unfolding 2 using assms(1-3) by simp
  have 4: "zip [''A1'', ''A2'', ''A3''] (rows ?data) = [(''A1'', r2), (''A2'', r3), (''A3'', r1)]"
    unfolding 2 by simp
  from 1 2 3 4 show ?thesis by (intro exI [of _ ?data] conjI)
qed

theorem sorted_identifier_assignment_witness:
  "\<exists>data. fst (preprocess sample_library
                 (Tabular \<lparr>columns = [''module'', ''failureRate'', ''tokens''],
                           rows = [sample_row ''m1'' 10 1, sample_row ''m2'' 90 2, sample_row ''m3'' 50 3]\<rparr>)
                 empty_world)
              = Inr (data, [''A1'', ''A2'', ''A3''])
        \<and> map failureRate (rows data) = [Num 90, Num 50, Num 10]"
proof -
  have 1: "failureRate (sample_row ''m1'' 10 1) = Num 10"
    and 2: "failureRate (sample_row ''m2'' 90 2) = Num 90"
    and 3: "failureRate (sample_row ''m3'' 50 3) = Num 50"
    by (simp_all add: sample_row_def)
  have 4: "''failureRate'' \<in> set [''module'', ''failureRate'', ''tokens'']" by simp
  from sorted_identifier_assignment [OF 1 2 3 4, of sample_library empty_world]
  obtain data where
    "fst (preprocess sample_library
            (Tabular \<lparr>columns = [''module'', ''failureRate'', ''tokens''],
                      rows = [sample_row ''m1'' 10 1, sample_row ''m2'' 90 2, sample_row ''m3'' 50 3]\<rparr>)
            empty_world) = Inr (data, [''A1'', ''A2'', ''A3''])"
    and "map failureRate (rows data) = [Num 90, Num 50, Num 10]"
    by (elim exE conjE)
  then show ?thesis by (intro exI [of _ data] conjI)
qed

section \<open>Properties of the colour mapping\<close>

lemma fold_min_const: "\<forall>x \<in> set xs. x = (t::rat) \<Longrightarrow> fold min xs t = t"
  by (induction xs) simp_all

lemma fold_max_const: "\<forall>x \<in> set xs. x = (t::rat) \<Longrightarrow> fold max xs t = t"
  by (induction xs) simp_all

lemma comprehension_total:
  "\<forall>x \<in> set xs. g x = Inr (h x) \<Longrightarrow> comprehension g xs = Inr (map h xs)"
  by (induction xs) simp_all

lemma Normalize_call_equal_bounds: "Normalize_call t t v = Inr 0"
  by (simp add: Normalize_call_def)

lemma build_chart_no_tokens:
  "''tokens'' \<notin> set (columns data) \<Longrightarrow> build_chart L data ids = Inl (KeyError ''tokens'')"
  by (simp add: build_chart_def)

lemma build_chart_colors:
  assumes "''tokens'' \<in> set (columns data)" and "rows data = r # rs"
    and "comprehension (Normalize_call (fold min (map tokens rs) (tokens r))
            (fold max (map tokens rs) (tokens r))) (map tokens (r # rs)) = Inr normed"
  shows "build_chart L data ids =
           Inr \<lparr>bar_heights = map failureRate (rows data),
                bar_colors = map (from_list L (rev palette) 256) normed,
                xticklabels = ids\<rparr>"
  using assms unfolding build_chart_def Let_def by simp

lemma build_chart_equal_tokens:
  assumes ne: "rows data = r # rs"
    and col: "''tokens'' \<in> set (columns data)"
    and eq: "\<forall>x \<in> set (r # rs). tokens x = t"
  shows "\<exists>c. build_chart L data ids = Inr c
           \<and> bar_colors c = replicate (length (r # rs)) (from_list L (rev palette) 256 0)"
proof -
  have tr: "tokens r = t" using eq by simp
  have all: "\<forall>x \<in> set (map tokens rs). x = t" using eq by simp
  have vmin: "fold min (map tokens rs) (tokens r) = t"
    unfolding tr using all by (rule fold_min_const)
  have vmax: "fold max (map tokens rs) (tokens r) = t"
    unfolding tr using all by (rule fold_max_const)
  have "comprehension (Normalize_call t t) (map tokens (r # rs)) = Inr (map (\<lambda>v. 0) (map tokens (r # rs)))"
    by (rule comprehension_total) (simp add: Normalize_call_equal_bounds)
  then have n: "comprehension (Normalize_call (fold min (map tokens rs) (tokens r))
            (fold max (map tokens rs) (tokens r))) (map tokens (r # rs)) = Inr (replicate (length (r # rs)) 0)"
    unfolding vmin vmax by (simp add: map_replicate_const)
  from build_chart_colors [OF col ne n, of L ids] show ?thesis by simp
qed

text \<open>
  Claim C7. For a non-empty table whose rows all have the same tokens value, the
  normalisation takes the branch for equal bounds (a constant 0, no division), the chart
  is built without a division by zero, and every bar gets the same colour.
\<close>

theorem equal_tokens_same_color:
  assumes "rows data \<noteq> []" and "''tokens'' \<in> set (columns data)"
    and "\<forall>x \<in> set (rows data). tokens x = t"
  shows "(\<forall>v. Normalize_call t t v = Inr 0)
         \<and> (\<forall>m. build_chart L data ids \<noteq> Inl (ZeroDivisionError m))
         \<and> (\<exists>c. build_chart L data ids = Inr c
               \<and> bar_colors c = replicate (length (rows data)) (from_list L (rev palette) 256 0)
               \<and> (\<forall>i < length (bar_colors c). \<forall>j < length (bar_colors c).
                     bar_colors c ! i = bar_colors c ! j))"
proof -
  from assms(1) obtain r rs where ne: "rows data = r # rs" by (cases "rows data") auto
  from assms(3) have eq: "\<forall>x \<in> set (r # rs). tokens x = t" unfolding ne .
  from build_chart_equal_tokens [OF ne assms(2) eq, of L ids]
  obtain c where c: "build_chart L data ids = Inr c"
    and b: "bar_colors c = replicate (length (rows data)) (from_list L (rev palette) 256 0)"
    unfolding ne by blast
  have same: "\<forall>i < length (bar_colors c). \<forall>j < length (bar_colors c).
                 bar_colors c ! i = bar_colors c ! j"
    unfolding b by simp
  have nz: "\<forall>m. build_chart L data ids \<noteq> Inl (ZeroDivisionError m)" unfolding c by simp
  from c b same nz Normalize_call_equal_bounds show ?thesis by blast
qed

theorem equal_tokens_same_color_witness:
  "\<exists>c. build_chart sample_library
          \<lparr>columns = [''module'', ''failureRate'', ''tokens''],
           rows = [sample_row ''m1'' 30 5, sample_row ''m2'' 20 5]\<rparr> [''A1'', ''A2''] = Inr c
       \<and> bar_colors c = [(0, 0, 0, 1), (0, 0, 0, 1)]"
proof -
  let ?d = "\<lparr>columns = [''module'', ''failureRate'', ''tokens''],
             rows = [sample_row ''m1'' 30 5, sample_row ''m2'' 20 5]\<rparr>"
  have 1: "rows ?d \<noteq> []" by simp
  have 2: "''tokens'' \<in> set (columns ?d)" by simp
  have 3: "\<forall>x \<in> set (rows ?d). tokens x = 5" by (simp add: sample_row_def)
  from equal_tokens_same_color [OF 1 2 3, of sample_library "[''A1'', ''A2'']"]
  obtain c where "build_chart sample_library ?d [''A1'', ''A2''] = Inr c"
    and "bar_colors c = replicate (length (rows ?d)) (from_list sample_library (rev palette) 256 0)"
    by blast
  then show ?thesis by (simp add: sample_library_def numeral_2_eq_2)
qed

section \<open>Properties of the renderer\<close>









lemma ceiling_div_20: "\<lceil>(of_int z :: rat) / 20\<rceil> = (z + 20 - 1) div 20"
proof -
  define q where "q = (z + 19) div 20"
  have e: "z + 19 = 20 * q + (z + 19) mod 20"
    unfolding q_def by (rule mult_div_mod_eq [symmetric])
  have r0: "0 \<le> (z + 19) mod 20" and r1: "(z + 19) mod 20 < 20" by simp_all
  from e r0 r1 have a: "20 * q - 20 < z" and b: "z \<le> 20 * q" by linarith+
  from a have "(of_int (20 * q - 20) :: rat) < of_int z" by (simp only: of_int_less_iff)
  then have a': "of_int q - 1 < (of_int z :: rat) / 20" by simp
  from b have "(of_int z :: rat) \<le> of_int (20 * q)" by (simp only: of_int_le_iff)
  then have b': "(of_int z :: rat) / 20 \<le> of_int q" by simp
  from a' b' have "\<lceil>(of_int z :: rat) / 20\<rceil> = q" by (rule ceiling_unique)
  then show ?thesis by (simp add: q_def)
qed






lemma strings_map_Str: "strings (map Str ss) = Some ss"
  by (simp add: strings_eq)

lemma numbers_map_Str: "ss \<noteq> [] \<Longrightarrow> numbers (map Str ss) = None"
  by (cases ss) simp_all


lemma radial_axis_strings:
  "ss \<noteq> [] \<Longrightarrow> radial_axis (map Str ss) = Inl (TypeError cannot_multiply)"
  unfolding radial_axis_def by (simp add: numbers_map_Str strings_map_Str)


lemma generate_identifiers_in_range:
  assumes "1 \<le> length (rows f)" and "length (rows f) \<le> 676"
  shows "generate_identifiers (Tabular f) w =
           (Inr (map (\<lambda>i. (alphabet ! (i div 26)) # str_nat (i mod 26 + 1)) [0..<length (rows f)]), w)"
  unfolding generate_identifiers_def body_in_range [OF assms] by simp

lemma generate_identifiers_empty:
  "rows f = [] \<Longrightarrow>
   generate_identifiers (Tabular f) w =
     (Inl (ValueError ''DataFrame cannot be empty.''),
      logging_error (''Error in generate_identifiers: DataFrame cannot be empty.'') w)"
  by (simp add: generate_identifiers_def body_cases)

lemma generate_identifiers_too_long:
  "676 < length (rows f) \<Longrightarrow>
   fst (generate_identifiers (Tabular f) w) =
     Inl (OverflowError (''Cannot generate more than '' @ str_nat max_identifiers @ '' unique identifiers.''))"
  unfolding fst_generate_identifiers body_cases by auto

lemma preprocess_NonTabular:
  "preprocess L NonTabular w = (Inl (TypeError ''Input argument must be a pandas DataFrame.''), w)"
  by (simp add: preprocess_def)

lemma sort_values_no_column:
  "key \<notin> set (columns f) \<Longrightarrow> sort_values L key ascending f = Inl (KeyError key)"
  by (simp add: sort_values_def column_def)

lemma sort_values_unorderable:
  assumes "''failureRate'' \<in> set (columns f)"
    and "numbers (map failureRate (rows f)) = None" and "strings (map failureRate (rows f)) = None"
  shows "sort_values L ''failureRate'' ascending f = Inl (TypeError unorderable)"
  using assms by (simp add: sort_values_def column_failureRate)

lemma sort_values_sortable:
  assumes "''failureRate'' \<in> set (columns f)"
    and "numbers (map failureRate (rows f)) \<noteq> None \<or> strings (map failureRate (rows f)) \<noteq> None"
  shows "\<exists>data. sort_values L ''failureRate'' ascending f = Inr data"
proof (cases "numbers (map failureRate (rows f))")
  case (Some ks)
  with assms(1) show ?thesis by (simp add: sort_values_def column_failureRate)
next
  case None
  with assms(2) obtain ss where "strings (map failureRate (rows f)) = Some ss" by auto
  with None assms(1) show ?thesis by (simp add: sort_values_def column_failureRate)
qed

lemma preprocess_sort_fails:
  assumes "sort_values L ''failureRate'' False f = Inl e"
  shows "preprocess L (Tabular f) w = (Inl e, logging_info ''Data preprocessing started.'' w)"
  unfolding preprocess_def pd_DataFrame_def Let_def pyobj.case assms sum.case ..

lemma preprocess_identifiers_fail:
  assumes "sort_values L ''failureRate'' False f = Inr data"
    and "generate_identifiers (Tabular data) (logging_info ''Data preprocessing started.'' w) = (Inl e, w2)"
  shows "preprocess L (Tabular f) w = (Inl e, w2)"
  unfolding preprocess_def pd_DataFrame_def Let_def pyobj.case assms sum.case prod.case ..


lemma perm_Num:
  assumes "mset xs = mset (map Num frs)"
  shows "\<exists>frs'. xs = map Num frs' \<and> mset frs' = mset frs"
proof -
  let ?u = "\<lambda>c. case c of Num v \<Rightarrow> v | Str s \<Rightarrow> 0"
  have "set xs = set (map Num frs)" using assms by (rule mset_eq_setD)
  then have "\<forall>c \<in> set xs. Num (?u c) = c" by auto
  then have 1: "xs = map Num (map ?u xs)" by (simp add: map_idI)
  have "mset (map ?u xs) = image_mset ?u (mset xs)" by simp
  also have "\<dots> = image_mset ?u (mset (map Num frs))" by (simp only: assms)
  also have "\<dots> = mset frs" by (simp add: multiset.map_comp comp_def)
  finally have 2: "mset (map ?u xs) = mset frs" .
  from 1 2 show ?thesis by blast
qed

lemma perm_Str:
  assumes "mset xs = mset (map Str ss)"
  shows "\<exists>ss'. xs = map Str ss' \<and> mset ss' = mset ss"
proof -
  let ?u = "\<lambda>c. case c of Num v \<Rightarrow> [] | Str s \<Rightarrow> s"
  have "set xs = set (map Str ss)" using assms by (rule mset_eq_setD)
  then have "\<forall>c \<in> set xs. Str (?u c) = c" by auto
  then have 1: "xs = map Str (map ?u xs)" by (simp add: map_idI)
  have "mset (map ?u xs) = image_mset ?u (mset xs)" by simp
  also have "\<dots> = image_mset ?u (mset (map Str ss))" by (simp only: assms)
  also have "\<dots> = mset ss" by (simp add: multiset.map_comp comp_def)
  finally have 2: "mset (map ?u xs) = mset ss" .
  from 1 2 show ?thesis by blast
qed

lemma preprocess_ok:
  assumes c: "''failureRate'' \<in> set (columns f)"
    and s: "numbers (map failureRate (rows f)) \<noteq> None \<or> strings (map failureRate (rows f)) \<noteq> None"
    and l1: "1 \<le> length (rows f)" and l2: "length (rows f) \<le> 676"
  shows "\<exists>data ids. preprocess L (Tabular f) w
                       = (Inr (data, ids), logging_info ''Data preprocessing started.'' w)
           \<and> mset (rows data) = mset (rows f)
           \<and> length ids = length (rows f)
           \<and> (''tokens'' \<in> set (columns data) \<longleftrightarrow> ''tokens'' \<in> set (columns f))
           \<and> (''module'' \<in> set (columns data) \<longleftrightarrow> ''module'' \<in> set (columns f))"
proof -
  let ?w1 = "logging_info ''Data preprocessing started.'' w"
  from sort_values_sortable [OF c s] obtain d0
    where d0: "sort_values L ''failureRate'' False f = Inr d0" by blast
  from sort_values_permutes [OF d0]
  have m: "mset (rows d0) = mset (rows f)" and cols: "columns d0 = columns f" by simp_all
  from m have len: "length (rows d0) = length (rows f)" by (rule mset_eq_length)
  let ?ids = "map (\<lambda>i. (alphabet ! (i div 26)) # str_nat (i mod 26 + 1)) [0..<length (rows d0)]"
  have g: "generate_identifiers (Tabular d0) ?w1 = (Inr ?ids, ?w1)"
    by (rule generate_identifiers_in_range) (simp_all only: len l1 l2)
  let ?data = "d0\<lparr>columns := (if ''identifier'' \<in> set (columns d0) then columns d0
                                else columns d0 @ [''identifier''])\<rparr>"
  have p: "preprocess L (Tabular f) w = (Inr (?data, ?ids), ?w1)"
    by (rule preprocess_sorted [OF d0 g])
  have 1: "mset (rows ?data) = mset (rows f)" using m by simp
  have 2: "length ?ids = length (rows f)" using len by simp
  have 3: "''tokens'' \<in> set (columns ?data) \<longleftrightarrow> ''tokens'' \<in> set (columns f)"
    by (simp add: cols)
  have 4: "''module'' \<in> set (columns ?data) \<longleftrightarrow> ''module'' \<in> set (columns f)"
    by (simp add: cols)
  from p 1 2 3 4 show ?thesis by blast
qed


lemma fst_plot_security_report:
  "fst (plot_security_report L table w) = fst (plot_body L table w)"
  unfolding plot_security_report_def
  by (cases "plot_body L table w") (auto split: sum.splits)

lemma plot_body_preprocess_fails:
  "preprocess L table w = (Inl e, w1) \<Longrightarrow> plot_body L table w = (Inl e, w1)"
  by (simp add: plot_body_def)

lemma fst_plot_body_render:
  assumes "preprocess L table w = (Inr (data, ids), w1)"
  shows "fst (plot_body L table w)
           = (case render L data ids of Inl e \<Rightarrow> Inl e | Inr png \<Rightarrow> Inr \<lparr>content = png, pos = 0\<rparr>)"
  unfolding plot_body_def assms
  by (simp add: Let_def split: prod.split sum.split)









section \<open>What leaves plot_security_report\<close>

lemma psr_preprocess_fails:
  assumes "fst (preprocess L table w) = Inl e"
  shows "fst (plot_security_report L table w) = Inl e"
proof -
  obtain w1 where "preprocess L table w = (Inl e, w1)"
    using assms by (cases "preprocess L table w") simp
  from plot_body_preprocess_fails [OF this] show ?thesis
    by (simp add: fst_plot_security_report)
qed

lemma psr_render:
  assumes "preprocess L table w = (Inr (data, ids), w1)"
  shows "fst (plot_security_report L table w)
           = (case render L data ids of Inl e \<Rightarrow> Inl e | Inr png \<Rightarrow> Inr \<lparr>content = png, pos = 0\<rparr>)"
  unfolding fst_plot_security_report by (rule fst_plot_body_render [OF assms])

lemma psr_NonTabular:
  "fst (plot_security_report L NonTabular w)
     = Inl (TypeError ''Input argument must be a pandas DataFrame.'')"
  by (rule psr_preprocess_fails) (simp add: preprocess_NonTabular)

lemma psr_no_failureRate:
  assumes "''failureRate'' \<notin> set (columns f)"
  shows "fst (plot_security_report L (Tabular f) w) = Inl (KeyError ''failureRate'')"
  by (rule psr_preprocess_fails)
     (simp add: preprocess_sort_fails [OF sort_values_no_column [OF assms]])

lemma psr_unorderable:
  assumes "''failureRate'' \<in> set (columns f)"
    and "numbers (map failureRate (rows f)) = None" and "strings (map failureRate (rows f)) = None"
  shows "fst (plot_security_report L (Tabular f) w) = Inl (TypeError unorderable)"
  by (rule psr_preprocess_fails)
     (simp add: preprocess_sort_fails [OF sort_values_unorderable [OF assms]])

lemma psr_empty:
  assumes c: "''failureRate'' \<in> set (columns f)" and e: "rows f = []"
  shows "fst (plot_security_report L (Tabular f) w) = Inl (ValueError ''DataFrame cannot be empty.'')"
proof -
  have s: "numbers (map failureRate (rows f)) \<noteq> None \<or> strings (map failureRate (rows f)) \<noteq> None"
    by (simp add: e)
  from sort_values_sortable [OF c s] obtain d0
    where d0: "sort_values L ''failureRate'' False f = Inr d0" by blast
  from sort_values_permutes [OF d0] e have "rows d0 = []" by simp
  from generate_identifiers_empty [OF this]
  have g: "generate_identifiers (Tabular d0) (logging_info ''Data preprocessing started.'' w)
             = (Inl (ValueError ''DataFrame cannot be empty.''),
                logging_error (''Error in generate_identifiers: DataFrame cannot be empty.'')
                  (logging_info ''Data preprocessing started.'' w))" .
  show ?thesis
    by (rule psr_preprocess_fails) (simp add: preprocess_identifiers_fail [OF d0 g])
qed

lemma psr_too_long:
  assumes c: "''failureRate'' \<in> set (columns f)"
    and s: "numbers (map failureRate (rows f)) \<noteq> None \<or> strings (map failureRate (rows f)) \<noteq> None"
    and l: "676 < length (rows f)"
  shows "fst (plot_security_report L (Tabular f) w)
           = Inl (OverflowError (''Cannot generate more than '' @ str_nat max_identifiers
                                 @ '' unique identifiers.''))"
proof -
  let ?w1 = "logging_info ''Data preprocessing started.'' w"
  let ?e = "OverflowError (''Cannot generate more than '' @ str_nat max_identifiers
                                 @ '' unique identifiers.'')"
  from sort_values_sortable [OF c s] obtain d0
    where d0: "sort_values L ''failureRate'' False f = Inr d0" by blast
  from sort_values_permutes [OF d0] have "mset (rows d0) = mset (rows f)" by (rule conjunct1)
  then have "length (rows d0) = length (rows f)" by (rule mset_eq_length)
  with l have "676 < length (rows d0)" by simp
  from generate_identifiers_too_long [OF this, of ?w1]
  obtain w2 where g: "generate_identifiers (Tabular d0) ?w1 = (Inl ?e, w2)"
    by (cases "generate_identifiers (Tabular d0) ?w1") simp
  show ?thesis
    by (rule psr_preprocess_fails) (simp add: preprocess_identifiers_fail [OF d0 g])
qed

lemma render_build_fails:
  "build_chart L data ids = Inl e \<Longrightarrow> render L data ids = Inl e"
  by (simp add: render_def)

lemma psr_no_tokens:
  assumes c: "''failureRate'' \<in> set (columns f)"
    and s: "numbers (map failureRate (rows f)) \<noteq> None \<or> strings (map failureRate (rows f)) \<noteq> None"
    and l1: "1 \<le> length (rows f)" and l2: "length (rows f) \<le> 676"
    and t: "''tokens'' \<notin> set (columns f)"
  shows "fst (plot_security_report L (Tabular f) w) = Inl (KeyError ''tokens'')"
proof -
  from preprocess_ok [OF c s l1 l2, of L w] obtain data ids
    where p: "preprocess L (Tabular f) w
                = (Inr (data, ids), logging_info ''Data preprocessing started.'' w)"
      and tk: "''tokens'' \<in> set (columns data) \<longleftrightarrow> ''tokens'' \<in> set (columns f)"
    by (elim exE conjE)
  from tk t have "''tokens'' \<notin> set (columns data)" by simp
  from render_build_fails [OF build_chart_no_tokens [OF this]]
  have "render L data ids = Inl (KeyError ''tokens'')" .
  then show ?thesis unfolding psr_render [OF p] by simp
qed

end
